theory Spec2Isabelle
  imports Main "HOL-Library.Word"
begin

section \<open>JavaScript values and their JSON serialization\<close>

text \<open>
  The adapter of \<^verbatim>\<open>rpc/adapters/ipcAdapter.ts\<close> moves untyped payloads
  (\<^verbatim>\<open>data: unknown | undefined\<close>) and serializes them with
  \<^verbatim>\<open>JSON.stringify\<close>. A payload is a value of \<open>jsval\<close>. Numbers are the
  integers a double holds exactly and prints in full decimal (the magnitudes up to
  \<open>2^53 - 1\<close>); fractions and larger magnitudes, which print with an exponent from
  \<open>10^21\<close> on, are outside the model. A string is the list of the bytes of its UTF-8
  encoding, and an object is the list of its own enumerable properties in enumeration
  order (a key is looked up at its first binding).
\<close>

datatype jsval =
    JUndefined
  | JNull
  | JBool bool
  | JNum int
  | JStr string
  | JArr "jsval list"
  | JObj "(string \<times> jsval) list"

definition dquote :: char where
  "dquote = CHR 0x22"

definition backslash :: char where
  "backslash = CHR 0x5C"

definition digit_char :: "nat \<Rightarrow> char" where
  "digit_char d = char_of (48 + d)"

text \<open>Decimal digits of a natural number, most significant first.\<close>

function show_nat :: "nat \<Rightarrow> string" where
  "show_nat n = (if n < 10 then [digit_char n] else show_nat (n div 10) @ [digit_char (n mod 10)])"
  by pat_completeness auto
termination
  by (relation "measure (\<lambda>n. n)") auto

declare show_nat.simps [simp del]

definition show_int :: "int \<Rightarrow> string" where
  "show_int i = (if i < 0 then CHR ''-'' # show_nat (nat (- i)) else show_nat (nat i))"

definition hex_char :: "nat \<Rightarrow> char" where
  "hex_char d = (if d < 10 then char_of (48 + d) else char_of (87 + d))"

text \<open>
  \<^verbatim>\<open>QuoteJSONString\<close>: the two-character escapes, \<^verbatim>\<open>\u00xx\<close> for the other
  control characters, every other byte as it is.
\<close>

definition escape_char :: "char \<Rightarrow> string" where
  "escape_char c =
     (let n = (of_char c :: nat) in
      if n = 8 then [backslash, CHR ''b'']
      else if n = 9 then [backslash, CHR ''t'']
      else if n = 10 then [backslash, CHR ''n'']
      else if n = 12 then [backslash, CHR ''f'']
      else if n = 13 then [backslash, CHR ''r'']
      else if c = dquote then [backslash, dquote]
      else if c = backslash then [backslash, backslash]
      else if n < 32 then [backslash, CHR ''u'', CHR ''0'', CHR ''0'', hex_char (n div 16), hex_char (n mod 16)]
      else [c])"

definition quote_string :: "string \<Rightarrow> string" where
  "quote_string s = dquote # concat (map escape_char s) @ [dquote]"

fun join_comma :: "string list \<Rightarrow> string" where
  "join_comma [] = []"
| "join_comma [s] = s"
| "join_comma (s # t # ss) = s @ CHR '','' # join_comma (t # ss)"

text \<open>
  \<^verbatim>\<open>JSON.stringify(value)\<close>. The result is \<open>None\<close> where JavaScript returns
  \<^verbatim>\<open>undefined\<close> instead of a string. An \<^verbatim>\<open>undefined\<close> array element is
  written \<^verbatim>\<open>null\<close>; a property whose value is \<^verbatim>\<open>undefined\<close> is left out.
\<close>

fun JSON_stringify :: "jsval \<Rightarrow> string option"
  and stringify_elements :: "jsval list \<Rightarrow> string list"
  and stringify_properties :: "(string \<times> jsval) list \<Rightarrow> string list" where
  "JSON_stringify JUndefined = None"
| "JSON_stringify JNull = Some ''null''"
| "JSON_stringify (JBool b) = Some (if b then ''true'' else ''false'')"
| "JSON_stringify (JNum i) = Some (show_int i)"
| "JSON_stringify (JStr s) = Some (quote_string s)"
| "JSON_stringify (JArr vs) = Some (CHR ''['' # join_comma (stringify_elements vs) @ '']'')"
| "JSON_stringify (JObj ps) = Some (CHR ''{'' # join_comma (stringify_properties ps) @ ''}'')"
| "stringify_elements [] = []"
| "stringify_elements (v # vs) =
     (case JSON_stringify v of None \<Rightarrow> ''null'' | Some s \<Rightarrow> s) # stringify_elements vs"
| "stringify_properties [] = []"
| "stringify_properties (kv # ps) =
     (case JSON_stringify (snd kv) of
        None \<Rightarrow> stringify_properties ps
      | Some s \<Rightarrow> (quote_string (fst kv) @ CHR '':'' # s) # stringify_properties ps)"

datatype js_error =
    ResponseError (err_status: int) (err_code: string) (err_message: string) (err_stack: "string option")
  | OtherError (err_name: string) (err_message: string) (err_stack: "string option")

text \<open>
  \<^verbatim>\<open>Buffer.from(x).byteLength\<close> for the result \<open>x\<close> of \<^verbatim>\<open>JSON.stringify\<close>:
  the number of bytes of the UTF-8 encoding of a string; \<^verbatim>\<open>Buffer.from(undefined)\<close>
  throws a \<^verbatim>\<open>TypeError\<close>.
\<close>

definition invalid_arg_type :: js_error where
  "invalid_arg_type = OtherError ''TypeError'' ''The first argument must be of type string or an instance of Buffer, ArrayBuffer, or Array or an Array-like Object. Received undefined'' None"

definition Buffer_byteLength :: "string option \<Rightarrow> js_error + nat" where
  "Buffer_byteLength x = (case x of None \<Rightarrow> Inl invalid_arg_type | Some s \<Rightarrow> Inr (length s))"


section \<open>Wire messages of the local-socket/TCP channel\<close>

record IpcRequest =
  mid :: int
  msg_type :: string
  msg_data :: jsval

record IpcResponse =
  response_id :: int
  response_status :: int
  response_data :: jsval

record IpcStream =
  stream_id :: int
  stream_data :: jsval

record IpcError =
  error_code :: string
  error_message :: string
  error_stack :: "string option"

text \<open>An \<^verbatim>\<open>IpcError\<close> object literal as a JavaScript value, in the order of its fields.\<close>

definition IpcError_value :: "IpcError \<Rightarrow> jsval" where
  "IpcError_value e =
     JObj [(''code'', JStr (error_code e)), (''message'', JStr (error_message e)),
           (''stack'', case error_stack e of None \<Rightarrow> JUndefined | Some s \<Rightarrow> JStr s)]"

text \<open>
  Modelled from the spec: \<^verbatim>\<open>ERROR_CODES.ERROR\<close> is declared in
  \<^verbatim>\<open>rpc/adapters/errors\<close>, which is not among the sources; the spec gives the
  code of an unstructured failure as \<^verbatim>\<open>"ERROR"\<close>.
\<close>

definition ERROR_CODES_ERROR :: string where
  "ERROR_CODES_ERROR = ''ERROR''"

definition renderError :: "js_error \<Rightarrow> IpcError" where
  "renderError error =
     \<lparr> error_code = (case error of ResponseError st c m s \<Rightarrow> c | OtherError n m s \<Rightarrow> ERROR_CODES_ERROR),
       error_message = err_message error,
       error_stack = err_stack error \<rparr>"

section \<open>The adapter and its state\<close>

record IpcSocket =
  handle :: nat
  socket_id :: "string option"

text \<open>\<^verbatim>\<open>!socket.id\<close> holds for an absent id and for the empty string.\<close>

definition truthy :: "string option \<Rightarrow> bool" where
  "truthy x = (case x of None \<Rightarrow> False | Some s \<Rightarrow> s \<noteq> [])"

datatype IpcAdapterConnectionInfo =
    ModeIpc string
  | ModeTcp string nat

text \<open>
  Modelled from the spec: the Traffic Meter (\<^verbatim>\<open>metrics/meter\<close> is not among the
  sources) is a byte counter with a start/stop lifecycle and \<^verbatim>\<open>add(bytes)\<close>.
\<close>

record Meter =
  meter_started :: bool
  meter_count :: nat

definition Meter_start :: "Meter \<Rightarrow> Meter" where
  "Meter_start m = m\<lparr>meter_started := True\<rparr>"


definition Meter_add :: "nat \<Rightarrow> Meter \<Rightarrow> Meter" where
  "Meter_add n m = m\<lparr>meter_count := meter_count m + n\<rparr>"

text \<open>
  What a route invocation does, as the adapter sees it: the calls it makes on the two
  callbacks of the Request Context it was given, in order, and how it ends. The router
  and the route handlers are outside the sources; a router is any function from the
  route name and the request data to such a run.
\<close>

datatype callback =
    Respond int jsval
  | Stream jsval

datatype route_outcome =
    Returned
  | Threw js_error

type_synonym router = "string \<Rightarrow> jsval \<Rightarrow> callback list \<times> route_outcome"

text \<open>
  A Request Context registered in \<open>pending\<close>. \<open>request_ref\<close> is the identity of
  the object; \<open>request_mid\<close> and \<open>request_socket\<close> are what its two callbacks
  captured. The mutable \<^verbatim>\<open>closed\<close> flag of the object lives in the store
  \<open>closed\<close> of the state, indexed by the reference, since the registry and the route
  handler share the object.
\<close>

record RpcRequest =
  request_ref :: nat
  request_data :: jsval
  request_route :: string
  request_socket :: IpcSocket
  request_mid :: int

datatype wire_event =
    EmitMessage IpcSocket IpcResponse
  | EmitStream IpcSocket IpcStream
  | EmitMalformedRequest IpcSocket IpcError

text \<open>
  The fields of \<^verbatim>\<open>RpcIpcAdapter\<close> (an object reference that is null or set is a
  \<open>bool\<close>), and with them the part of the world its methods act on: \<open>emitted\<close>,
  the calls of \<^verbatim>\<open>server.emit\<close> so far; \<open>closed\<close>, the closed flags of the
  Request Contexts; \<open>next_ref\<close>, the next fresh object reference.
\<close>

record adapter =
  router :: "router option"
  ipc :: bool
  server :: bool
  httpServer :: bool
  wsServer :: bool
  pending :: "string \<rightharpoonup> RpcRequest list"
  started :: bool
  connection :: IpcAdapterConnectionInfo
  inboundTraffic :: Meter
  outboundTraffic :: Meter
  emitted :: "wire_event list"
  closed :: "nat \<Rightarrow> bool"
  next_ref :: nat

text \<open>
  What the environment supplies: the verdict of
  \<^verbatim>\<open>YupUtils.tryValidate(IpcRequestSchema, data)\<close> (\<open>None\<close> is a validation
  error) and the stack trace a new \<^verbatim>\<open>Error\<close> gets.
\<close>

record env =
  tryValidate :: "jsval \<Rightarrow> IpcRequest option"
  new_stack :: string

definition assertion_error :: js_error where
  "assertion_error = OtherError ''Error'' ''Expected value not to be null'' None"

text \<open>A method returns the error it throws, if any, and the state it leaves.\<close>

type_synonym outcome = "js_error option \<times> adapter"

definition emitResponse :: "IpcSocket \<Rightarrow> int \<Rightarrow> int \<Rightarrow> jsval \<Rightarrow> adapter \<Rightarrow> outcome" where
  "emitResponse socket messageId st d a =
     (if \<not> server a then (Some assertion_error, a)
      else
        let a1 = a\<lparr>emitted := emitted a @ [EmitMessage socket \<lparr>response_id = messageId, response_status = st, response_data = d\<rparr>]\<rparr>
        in case Buffer_byteLength (JSON_stringify d) of
             Inl e \<Rightarrow> (Some e, a1)
           | Inr n \<Rightarrow> (None, a1\<lparr>outboundTraffic := Meter_add n (outboundTraffic a1)\<rparr>))"

definition emitStream :: "IpcSocket \<Rightarrow> int \<Rightarrow> jsval \<Rightarrow> adapter \<Rightarrow> outcome" where
  "emitStream socket messageId d a =
     (if \<not> server a then (Some assertion_error, a)
      else
        let a1 = a\<lparr>emitted := emitted a @ [EmitStream socket \<lparr>stream_id = messageId, stream_data = d\<rparr>]\<rparr>
        in case Buffer_byteLength (JSON_stringify d) of
             Inl e \<Rightarrow> (Some e, a1)
           | Inr n \<Rightarrow> (None, a1\<lparr>outboundTraffic := Meter_add n (outboundTraffic a1)\<rparr>))"

text \<open>
  The test of \<^verbatim>\<open>handleMalformedRequest\<close>: \<^verbatim>\<open>data\<close> is a non-null object,
  has a property \<^verbatim>\<open>id\<close>, and that property is a number.
\<close>

definition numeric_id :: "jsval \<Rightarrow> int option" where
  "numeric_id d =
     (case d of
        JObj ps \<Rightarrow> (case map_of ps ''id'' of Some (JNum i) \<Rightarrow> Some i | _ \<Rightarrow> None)
      | _ \<Rightarrow> None)"

definition malformed_error :: "env \<Rightarrow> IpcError" where
  "malformed_error ev = renderError (OtherError ''Error'' ''Malformed request rejected'' (Some (new_stack ev)))"

definition handleMalformedRequest :: "env \<Rightarrow> IpcSocket \<Rightarrow> jsval \<Rightarrow> adapter \<Rightarrow> outcome" where
  "handleMalformedRequest ev socket d a =
     (if \<not> server a then (Some assertion_error, a)
      else
        let error = malformed_error ev
        in case numeric_id d of
             Some i \<Rightarrow> emitResponse socket i 500 (IpcError_value error) a
           | None \<Rightarrow>
               (let a1 = a\<lparr>emitted := emitted a @ [EmitMalformedRequest socket error]\<rparr>
                in case Buffer_byteLength (JSON_stringify (IpcError_value error)) of
                     Inl e \<Rightarrow> (Some e, a1)
                   | Inr n \<Rightarrow> (None, a1\<lparr>outboundTraffic := Meter_add n (outboundTraffic a1)\<rparr>)))"

text \<open>
  The two callbacks \<^verbatim>\<open>onMessage\<close> gives a Request Context call
  \<^verbatim>\<open>emitResponse\<close> and \<^verbatim>\<open>emitStream\<close> with the socket and the
  \<^verbatim>\<open>mid\<close> of the message. An error thrown inside a callback leaves the route
  invocation as it is.
\<close>

definition run_callback :: "IpcSocket \<Rightarrow> int \<Rightarrow> callback \<Rightarrow> adapter \<Rightarrow> outcome" where
  "run_callback socket m c a =
     (case c of Respond st d \<Rightarrow> emitResponse socket m st d a | Stream d \<Rightarrow> emitStream socket m d a)"

fun run_callbacks :: "IpcSocket \<Rightarrow> int \<Rightarrow> callback list \<Rightarrow> adapter \<Rightarrow> outcome" where
  "run_callbacks socket m [] a = (None, a)"
| "run_callbacks socket m (c # cs) a =
     (case run_callback socket m c a of
        (Some e, a') \<Rightarrow> (Some e, a')
      | (None, a') \<Rightarrow> run_callbacks socket m cs a')"

text \<open>\<^verbatim>\<open>await router.route(message.type, request)\<close>.\<close>

definition route :: "router \<Rightarrow> IpcSocket \<Rightarrow> IpcRequest \<Rightarrow> adapter \<Rightarrow> outcome" where
  "route r socket msg a =
     (case r (msg_type msg) (msg_data msg) of
        (cs, out) \<Rightarrow>
          (case run_callbacks socket (mid msg) cs a of
             (Some e, a') \<Rightarrow> (Some e, a')
           | (None, a') \<Rightarrow> (case out of Returned \<Rightarrow> (None, a') | Threw e \<Rightarrow> (Some e, a'))))"

text \<open>
  The new \<^verbatim>\<open>RpcRequest\<close> and its registration: \<^verbatim>\<open>pending.get\<close>, the empty
  list stored where there is none, \<^verbatim>\<open>pending.push(request)\<close>.
\<close>

definition new_request :: "IpcSocket \<Rightarrow> IpcRequest \<Rightarrow> adapter \<Rightarrow> RpcRequest" where
  "new_request socket msg a =
     \<lparr> request_ref = next_ref a, request_data = msg_data msg, request_route = msg_type msg,
       request_socket = socket, request_mid = mid msg \<rparr>"

definition register :: "string \<Rightarrow> IpcSocket \<Rightarrow> IpcRequest \<Rightarrow> adapter \<Rightarrow> adapter" where
  "register sid socket msg a =
     a\<lparr>pending := (pending a)(sid \<mapsto> (case pending a sid of None \<Rightarrow> [] | Some rs \<Rightarrow> rs) @ [new_request socket msg a]),
       next_ref := Suc (next_ref a)\<rparr>"

text \<open>
  The \<^verbatim>\<open>catch\<close> clause of \<^verbatim>\<open>onMessage\<close>: a \<^verbatim>\<open>ResponseError\<close> is
  answered, anything else is thrown again.
\<close>

definition catch_route :: "IpcSocket \<Rightarrow> int \<Rightarrow> outcome \<Rightarrow> outcome" where
  "catch_route socket m res =
     (case res of
        (None, a) \<Rightarrow> (None, a)
      | (Some error, a) \<Rightarrow>
          (case error of
             ResponseError st c msg stk \<Rightarrow> emitResponse socket m st (IpcError_value (renderError error)) a
           | OtherError n msg stk \<Rightarrow> (Some error, a)))"

definition onMessage :: "env \<Rightarrow> IpcSocket \<Rightarrow> jsval \<Rightarrow> adapter \<Rightarrow> outcome" where
  "onMessage ev socket d a =
     (case socket_id socket of
        None \<Rightarrow> (None, a)
      | Some sid \<Rightarrow>
          (if sid = [] then (None, a)
           else
             (case tryValidate ev d of
                None \<Rightarrow> handleMalformedRequest ev socket d a
              | Some msg \<Rightarrow>
                  (case Buffer_byteLength (JSON_stringify d) of
                     Inl e \<Rightarrow> (Some e, a)
                   | Inr n \<Rightarrow>
                       (let a1 = a\<lparr>inboundTraffic := Meter_add n (inboundTraffic a)\<rparr>
                        in (case router a1 of
                              None \<Rightarrow> (Some assertion_error, a1)
                            | Some r \<Rightarrow>
                                (if \<not> server a1 then (Some assertion_error, a1)
                                 else catch_route socket (mid msg)
                                        (route r socket msg (register sid socket msg a1)))))))))"

text \<open>\<^verbatim>\<open>onConnect\<close>: a socket without an id gets a fresh one.\<close>

definition onConnect :: "string \<Rightarrow> IpcSocket \<Rightarrow> IpcSocket" where
  "onConnect uuid socket = (if \<not> truthy (socket_id socket) then socket\<lparr>socket_id := Some uuid\<rparr> else socket)"

text \<open>
  Modelled from the spec: \<^verbatim>\<open>RpcRequest.close()\<close> (\<^verbatim>\<open>rpc/request\<close> is not
  among the sources) is the forced close of a context: it marks it closed and sends
  nothing.
\<close>

definition RpcRequest_close :: "RpcRequest \<Rightarrow> adapter \<Rightarrow> adapter" where
  "RpcRequest_close request a = a\<lparr>closed := (closed a)(request_ref request := True)\<rparr>"

definition onDisconnect :: "IpcSocket \<Rightarrow> string option \<Rightarrow> adapter \<Rightarrow> adapter" where
  "onDisconnect socket socketId a =
     (case socketId of
        None \<Rightarrow> a
      | Some sid \<Rightarrow>
          (case pending a sid of
             None \<Rightarrow> a
           | Some rs \<Rightarrow> (let a1 = fold RpcRequest_close rs a in a1\<lparr>pending := (pending a1)(sid := None)\<rparr>)))"

text \<open>
  The listener of \<^verbatim>\<open>socket.disconnected\<close>:
  \<^verbatim>\<open>this.onDisconnect(socket, socket.id || null)\<close>.
\<close>

definition socket_disconnected :: "IpcSocket \<Rightarrow> adapter \<Rightarrow> adapter" where
  "socket_disconnected socket a =
     onDisconnect socket (if truthy (socket_id socket) then socket_id socket else None) a"

definition attach :: "router \<Rightarrow> adapter \<Rightarrow> adapter" where
  "attach r a = a\<lparr>router := Some r\<rparr>"


text \<open>
  \<^verbatim>\<open>IpcRequestSchema\<close> as the source declares it: \<^verbatim>\<open>mid\<close> a required
  number, \<^verbatim>\<open>type\<close> a required string (which refuses the empty string),
  \<^verbatim>\<open>data\<close> anything or nothing, unknown keys stripped. This is the strict reading
  of the schema: the casts the validation library applies to values of other types are
  not modelled. The theorems below hold for every validator; this one stands in the
  concrete examples, at inputs where no cast applies.
\<close>

definition IpcRequestSchema :: "jsval \<Rightarrow> IpcRequest option" where
  "IpcRequestSchema d =
     (case d of
        JObj ps \<Rightarrow>
          (case map_of ps ''mid'' of
             Some (JNum m) \<Rightarrow>
               (case map_of ps ''type'' of
                  Some (JStr t) \<Rightarrow>
                    if t = [] then None
                    else Some \<lparr> mid = m, msg_type = t,
                                msg_data = (case map_of ps ''data'' of None \<Rightarrow> JUndefined | Some v \<Rightarrow> v) \<rparr>
                | _ \<Rightarrow> None)
           | _ \<Rightarrow> None)
      | _ \<Rightarrow> None)"

text \<open>
  \<^verbatim>\<open>start()\<close>. \<open>served\<close> is what the transport answers: \<open>None\<close> when the
  \<^verbatim>\<open>onServed\<close> callback runs, an error when the server's \<^verbatim>\<open>error\<close> event
  comes first and the promise is rejected.
\<close>

definition start :: "js_error option \<Rightarrow> adapter \<Rightarrow> outcome" where
  "start served a =
     (if started a then (None, a)
      else
        let a1 = a\<lparr>started := True,
                   inboundTraffic := Meter_start (inboundTraffic a),
                   outboundTraffic := Meter_start (outboundTraffic a),
                   ipc := True\<rparr>;
            a2 = (case connection a1 of
                    ModeIpc socketPath \<Rightarrow> a1
                  | ModeTcp host port \<Rightarrow> a1\<lparr>httpServer := True, wsServer := True\<rparr>)
        in case served of
             None \<Rightarrow> (None, a2\<lparr>server := True\<rparr>)
           | Some e \<Rightarrow> (Some e, a2))"


section \<open>The HTTP and WebSocket listeners\<close>

text \<open>
  The request URL after \<^verbatim>\<open>new URL('http://localhost' + request.url)\<close>: its
  \<^verbatim>\<open>pathname\<close>, its \<^verbatim>\<open>search\<close> string and the pairs of its
  \<^verbatim>\<open>searchParams\<close>.
\<close>

record parsed_url =
  pathname :: string
  search :: string
  searchParams :: "(string \<times> string) list"

text \<open>
  An incoming HTTP request: \<open>request_url\<close> is \<open>None\<close> when the \<^verbatim>\<open>URL\<close>
  constructor throws; \<open>body_json\<close> is \<^verbatim>\<open>JSON.parse\<close> of the body, \<open>None\<close>
  when it throws.
\<close>

record IncomingMessage =
  request_method :: string
  request_url :: "parsed_url option"
  body_json :: "jsval option"

text \<open>
  The order of the own properties of an object: the keys that are array indices (the
  canonical decimal numerals below \<open>2^32 - 1\<close>) come first, in ascending order, the
  other keys follow in the order of their creation.
\<close>

definition is_digit :: "char \<Rightarrow> bool" where
  "is_digit c = (48 \<le> (of_char c :: nat) \<and> (of_char c :: nat) \<le> 57)"

definition digits_value :: "string \<Rightarrow> nat" where
  "digits_value k = foldl (\<lambda>n c. 10 * n + ((of_char c :: nat) - 48)) 0 k"

definition array_index :: "string \<Rightarrow> nat option" where
  "array_index k =
     (if k \<noteq> [] \<and> list_all is_digit k \<and> (length k = 1 \<or> hd k \<noteq> CHR ''0'')
         \<and> digits_value k < 4294967295
      then Some (digits_value k) else None)"

fun insert_property :: "(string \<times> jsval) list \<Rightarrow> string \<Rightarrow> jsval \<Rightarrow> (string \<times> jsval) list" where
  "insert_property [] k v = [(k, v)]"
| "insert_property (p # ps) k v =
     (case array_index k of
        None \<Rightarrow> p # insert_property ps k v
      | Some i \<Rightarrow>
          (case array_index (fst p) of
             None \<Rightarrow> (k, v) # p # ps
           | Some j \<Rightarrow> if j < i then p # insert_property ps k v else (k, v) # p # ps))"

text \<open>
  \<^verbatim>\<open>params[key] = value\<close> on a plain object: the value of an own property is
  replaced where it stands, a new property takes its place in the order above, and an
  assignment to \<^verbatim>\<open>__proto__\<close> goes to the accessor of
  \<^verbatim>\<open>Object.prototype\<close> and creates no own property.
\<close>

definition assign_property :: "(string \<times> jsval) list \<Rightarrow> string \<Rightarrow> jsval \<Rightarrow> (string \<times> jsval) list" where
  "assign_property ps k v =
     (if k = ''__proto__'' then ps
      else
        (case map_of ps k of
           None \<Rightarrow> insert_property ps k v
         | Some w \<Rightarrow> map (\<lambda>kv. if fst kv = k then (k, v) else kv) ps))"

definition query_params :: "parsed_url \<Rightarrow> jsval" where
  "query_params u =
     (if search u \<noteq> []
      then JObj (fold (\<lambda>kv ps. assign_property ps (fst kv) (JStr (snd kv))) (searchParams u) [])
      else JUndefined)"

text \<open>The own enumerable properties \<^verbatim>\<open>Object.assign\<close> copies from its source.\<close>

fun own_properties :: "jsval \<Rightarrow> (string \<times> jsval) list" where
  "own_properties (JObj ps) = ps"
| "own_properties (JArr vs) = zip (map show_nat [0..<length vs]) vs"
| "own_properties (JStr s) = zip (map show_nat [0..<length s]) (map (\<lambda>c. JStr [c]) s)"
| "own_properties v = []"

definition Object_assign :: "jsval \<Rightarrow> jsval \<Rightarrow> jsval" where
  "Object_assign target source =
     (case target of
        JObj ps \<Rightarrow> JObj (fold (\<lambda>kv qs. assign_property qs (fst kv) (snd kv)) (own_properties source) ps)
      | _ \<Rightarrow> target)"

definition syntax_error :: js_error where
  "syntax_error = OtherError ''SyntaxError'' ''Unexpected token in JSON'' None"

definition invalid_url :: js_error where
  "invalid_url = OtherError ''TypeError'' ''Invalid URL'' None"

definition http_params :: "IncomingMessage \<Rightarrow> parsed_url \<Rightarrow> js_error + jsval" where
  "http_params request u =
     (let params = query_params u
      in if request_method request = ''POST'' \<or> request_method request = ''PUT''
         then (case body_json request of
                 None \<Rightarrow> Inl syntax_error
               | Some b \<Rightarrow> Inr (Object_assign (case params of JUndefined \<Rightarrow> JObj [] | _ \<Rightarrow> params) b))
         else Inr params)"

text \<open>
  \<^verbatim>\<open>new Request(params, ...)\<close> in the HTTP and the WebSocket listener. The file
  imports \<^verbatim>\<open>RpcRequest\<close> only (the class \<^verbatim>\<open>onMessage\<close> constructs, with four
  arguments), so \<^verbatim>\<open>Request\<close> is the global of the runtime. That is the class of the
  Fetch API, whose constructor takes a URL first and throws a \<^verbatim>\<open>TypeError\<close> on
  \<^verbatim>\<open>params\<close>, which is \<^verbatim>\<open>undefined\<close> or a plain object; a runtime without
  that global throws a \<^verbatim>\<open>ReferenceError\<close> instead. Either way the expression throws
  an error that is not a \<^verbatim>\<open>ResponseError\<close>, and no Request Context is built. The
  result type keeps the other case, in which the rest of each listener would run.
\<close>

definition Request_error :: js_error where
  "Request_error = OtherError ''TypeError'' ''Failed to parse URL'' None"

definition new_Request :: "jsval \<Rightarrow> js_error + unit" where
  "new_Request params = Inl Request_error"

text \<open>
  The calls made on the HTTP response and on the Request Context, in order. A response
  is the list of the calls made on it so far.
\<close>

datatype http_effect =
    WriteHead int "(string \<times> string) list"
  | Write "string option"
  | ResponseEnd
  | RequestClose

type_synonym http_outcome = "js_error option \<times> http_effect list"

definition headers :: "(string \<times> string) list" where
  "headers = [(''Content-Type'', ''application/json'')]"

definition envelope :: "int \<Rightarrow> jsval \<Rightarrow> jsval" where
  "envelope st d = JObj [(''status'', JNum st), (''data'', d)]"

fun is_WriteHead :: "http_effect \<Rightarrow> bool" where
  "is_WriteHead (WriteHead st hs) = True"
| "is_WriteHead e = False"

definition head_written :: "http_effect list \<Rightarrow> bool" where
  "head_written calls = list_ex is_WriteHead calls"

definition ERR_HTTP_HEADERS_SENT :: js_error where
  "ERR_HTTP_HEADERS_SENT =
     OtherError ''Error'' ''Cannot write headers after they are sent to the client'' None"

text \<open>
  \<^verbatim>\<open>response.writeHead(status, headers)\<close>: it throws when the head of the response
  has been written before.
\<close>

definition writeHead :: "int \<Rightarrow> http_effect list \<Rightarrow> http_outcome" where
  "writeHead st calls =
     (if head_written calls then (Some ERR_HTTP_HEADERS_SENT, calls)
      else (None, calls @ [WriteHead st headers]))"

text \<open>
  The two callbacks the HTTP listener writes for its Request Context: each calls
  \<^verbatim>\<open>response.writeHead\<close>, then \<^verbatim>\<open>response.write\<close> with the JSON of an
  envelope.
\<close>

definition http_respond :: "int \<Rightarrow> jsval \<Rightarrow> http_effect list \<Rightarrow> http_outcome" where
  "http_respond st d calls =
     (case writeHead st calls of
        (Some e, calls') \<Rightarrow> (Some e, calls')
      | (None, calls') \<Rightarrow> (None, calls' @ [Write (JSON_stringify (envelope st d))]))"

definition http_stream :: "jsval \<Rightarrow> http_effect list \<Rightarrow> http_outcome" where
  "http_stream d calls =
     (case writeHead 200 calls of
        (Some e, calls') \<Rightarrow> (Some e, calls')
      | (None, calls') \<Rightarrow> (None, calls' @ [Write (JSON_stringify (envelope 200 d))]))"

definition http_callback :: "callback \<Rightarrow> http_effect list \<Rightarrow> http_outcome" where
  "http_callback c calls =
     (case c of Respond st d \<Rightarrow> http_respond st d calls | Stream d \<Rightarrow> http_stream d calls)"

fun http_callbacks :: "callback list \<Rightarrow> http_effect list \<Rightarrow> http_outcome" where
  "http_callbacks [] calls = (None, calls)"
| "http_callbacks (c # cs) calls =
     (case http_callback c calls of
        (Some e, calls') \<Rightarrow> (Some e, calls')
      | (None, calls') \<Rightarrow> http_callbacks cs calls')"

text \<open>\<^verbatim>\<open>await this.router?.route(route, ipcRequest)\<close>: nothing happens without a router.\<close>

definition http_route :: "router option \<Rightarrow> string \<Rightarrow> jsval \<Rightarrow> http_effect list \<Rightarrow> http_outcome" where
  "http_route ro name params calls =
     (case ro of
        None \<Rightarrow> (None, calls)
      | Some r \<Rightarrow>
          (case r name params of
             (cs, out) \<Rightarrow>
               (case http_callbacks cs calls of
                  (Some e, calls') \<Rightarrow> (Some e, calls')
                | (None, calls') \<Rightarrow>
                    (case out of Returned \<Rightarrow> (None, calls') | Threw e \<Rightarrow> (Some e, calls')))))"

text \<open>The \<^verbatim>\<open>catch\<close> clause of the HTTP listener.\<close>

definition http_catch :: "http_outcome \<Rightarrow> http_outcome" where
  "http_catch res =
     (case res of
        (None, calls) \<Rightarrow> (None, calls)
      | (Some error, calls) \<Rightarrow>
          (case error of
             ResponseError st c m s \<Rightarrow>
               (case writeHead st calls of
                  (Some e, calls') \<Rightarrow> (Some e, calls')
                | (None, calls') \<Rightarrow>
                    (None, calls' @ [Write (JSON_stringify (envelope st (IpcError_value (renderError error))))]))
           | OtherError n m s \<Rightarrow> (Some error, calls)))"

text \<open>
  The HTTP listener. The parameters are built, then \<^verbatim>\<open>new Request\<close> is evaluated,
  outside the \<^verbatim>\<open>try\<close> statement; the \<^verbatim>\<open>finally\<close> clause ends the response
  and closes the Request Context on every way out of the \<^verbatim>\<open>try\<close> statement.
\<close>

definition http_handler :: "adapter \<Rightarrow> IncomingMessage \<Rightarrow> http_outcome" where
  "http_handler a request =
     (case request_url request of
        None \<Rightarrow> (Some invalid_url, [])
      | Some u \<Rightarrow>
          (case http_params request u of
             Inl e \<Rightarrow> (Some e, [])
           | Inr params \<Rightarrow>
               (case new_Request params of
                  Inl e \<Rightarrow> (Some e, [])
                | Inr ctx \<Rightarrow>
                    (case http_catch (http_route (router a) (drop 1 (pathname u)) params []) of
                       (res, calls) \<Rightarrow> (res, calls @ [ResponseEnd, RequestClose])))))"

text \<open>\<^verbatim>\<open>route.endsWith(suffix)\<close>.\<close>

definition endsWith :: "string \<Rightarrow> string \<Rightarrow> bool" where
  "endsWith s suffix = (length suffix \<le> length s \<and> drop (length s - length suffix) s = suffix)"

text \<open>
  The calls the WebSocket listener makes: on the client socket, on the router and on its
  Request Context.
\<close>

datatype ws_effect =
    WsClose
  | WsSend "string option"
  | WsOnClose
  | WsRoute string jsval

definition ws_respond :: "int \<Rightarrow> jsval \<Rightarrow> ws_effect list" where
  "ws_respond st d = [WsSend (JSON_stringify (envelope st d))]"

definition ws_stream :: "jsval \<Rightarrow> ws_effect list" where
  "ws_stream d = [WsSend (JSON_stringify d)]"

definition ws_callback :: "callback \<Rightarrow> ws_effect list" where
  "ws_callback c = (case c of Respond st d \<Rightarrow> ws_respond st d | Stream d \<Rightarrow> ws_stream d)"

fun is_Respond :: "callback \<Rightarrow> bool" where
  "is_Respond (Respond st d) = True"
| "is_Respond (Stream d) = False"

text \<open>
  Modelled from the spec: \<^verbatim>\<open>ipcRequest.end(data, status)\<close> is a method of the
  Request Context, which is not among the sources; by the spec it calls the terminal
  callback unless the context has ended already, that is, unless the route invocation
  has called \<^verbatim>\<open>respond\<close>.
\<close>

definition ws_end :: "callback list \<Rightarrow> jsval \<Rightarrow> int \<Rightarrow> ws_effect list" where
  "ws_end cs d st = (if list_ex is_Respond cs then [] else ws_respond st d)"

text \<open>
  The WebSocket listener: the guard on the route name, the parameters, then
  \<^verbatim>\<open>new Request\<close>, before the close handler is set and the router is called.
\<close>

definition ws_connection :: "adapter \<Rightarrow> parsed_url option \<Rightarrow> js_error option \<times> ws_effect list" where
  "ws_connection a url =
     (case url of
        None \<Rightarrow> (Some invalid_url, [])
      | Some u \<Rightarrow>
          (let name = drop 1 (pathname u)
           in if \<not> endsWith name ''Stream'' then (None, [WsClose])
              else
                let params = query_params u
                in case new_Request params of
                     Inl e \<Rightarrow> (Some e, [])
                   | Inr ctx \<Rightarrow>
                       (case router a of
                          None \<Rightarrow> (None, [WsOnClose])
                        | Some r \<Rightarrow>
                            (case r name params of
                               (cs, out) \<Rightarrow>
                                 (let es = WsOnClose # WsRoute name params # concat (map ws_callback cs)
                                  in case out of
                                       Returned \<Rightarrow> (None, es)
                                     | Threw error \<Rightarrow>
                                         (case error of
                                            ResponseError st c m s \<Rightarrow>
                                              (None, es @ ws_end cs (IpcError_value (renderError error)) st @ [WsClose])
                                          | OtherError n m s \<Rightarrow> (Some error, es @ [WsClose])))))))"

section \<open>The block chunk codec\<close>

text \<open>
  Modelled from the spec: \<^verbatim>\<open>getBlockSize\<close>, \<^verbatim>\<open>writeBlock\<close> and
  \<^verbatim>\<open>readBlock\<close> of \<^verbatim>\<open>network/utils/block\<close> are not among the sources
  (only the test that calls them is). By the spec a block is a header, a binary blob of a
  fixed size, and a list of transactions, binary blobs of any length; its wire shape is
  the header bytes, the varint of the transaction count, then for each transaction the
  varint of its length and its bytes. The varint is the one of the buffer library the
  test reads and writes with: one byte below \<open>0xfd\<close>, else a marker byte and the
  value in 2, 4 or 8 bytes, least significant first; the reader refuses a value written
  longer than needed.
\<close>

type_synonym byte = "8 word"

record Block =
  block_header :: "byte list"
  block_transactions :: "byte list list"

fun le_bytes :: "nat \<Rightarrow> nat \<Rightarrow> byte list" where
  "le_bytes 0 n = []"
| "le_bytes (Suc k) n = of_nat (n mod 256) # le_bytes k (n div 256)"

fun le_value :: "byte list \<Rightarrow> nat" where
  "le_value [] = 0"
| "le_value (b # bs) = unat b + 256 * le_value bs"

definition sizeVarint :: "nat \<Rightarrow> nat" where
  "sizeVarint n = (if n < 0xfd then 1 else if n \<le> 0xffff then 3 else if n \<le> 0xffffffff then 5 else 9)"

definition writeVarint :: "nat \<Rightarrow> byte list" where
  "writeVarint n =
     (if n < 0xfd then [of_nat n]
      else if n \<le> 0xffff then 0xfd # le_bytes 2 n
      else if n \<le> 0xffffffff then 0xfe # le_bytes 4 n
      else 0xff # le_bytes 8 n)"

definition readFixed :: "nat \<Rightarrow> nat \<Rightarrow> byte list \<Rightarrow> (nat \<times> byte list) option" where
  "readFixed k least bs =
     (if length bs < k then None
      else let v = le_value (take k bs) in if v < least then None else Some (v, drop k bs))"

definition readVarint :: "byte list \<Rightarrow> (nat \<times> byte list) option" where
  "readVarint bs =
     (case bs of
        [] \<Rightarrow> None
      | b # rest \<Rightarrow>
          if b = 0xff then readFixed 8 0x100000000 rest
          else if b = 0xfe then readFixed 4 0x10000 rest
          else if b = 0xfd then readFixed 2 0xfd rest
          else Some (unat b, rest))"

definition writeVarBytes :: "byte list \<Rightarrow> byte list" where
  "writeVarBytes t = writeVarint (length t) @ t"

definition getBlockSize :: "Block \<Rightarrow> nat" where
  "getBlockSize b =
     length (block_header b) + sizeVarint (length (block_transactions b))
       + sum_list (map (\<lambda>t. sizeVarint (length t) + length t) (block_transactions b))"

definition writeBlock :: "Block \<Rightarrow> byte list" where
  "writeBlock b =
     block_header b @ writeVarint (length (block_transactions b))
       @ concat (map writeVarBytes (block_transactions b))"

fun readTransactions :: "nat \<Rightarrow> byte list \<Rightarrow> (byte list list \<times> byte list) option" where
  "readTransactions 0 bs = Some ([], bs)"
| "readTransactions (Suc n) bs =
     (case readVarint bs of
        None \<Rightarrow> None
      | Some (len, bs1) \<Rightarrow>
          if length bs1 < len then None
          else (case readTransactions n (drop len bs1) of
                  None \<Rightarrow> None
                | Some (ts, bs2) \<Rightarrow> Some (take len bs1 # ts, bs2)))"

text \<open>\<open>readBlock h bs\<close> reads a block with a header of \<open>h\<close> bytes and returns what is left.\<close>

definition readBlock :: "nat \<Rightarrow> byte list \<Rightarrow> (Block \<times> byte list) option" where
  "readBlock h bs =
     (if length bs < h then None
      else
        case readVarint (drop h bs) of
          None \<Rightarrow> None
        | Some (n, bs1) \<Rightarrow>
            (case readTransactions n bs1 of
               None \<Rightarrow> None
             | Some (ts, bs2) \<Rightarrow> Some (\<lparr> block_header = take h bs, block_transactions = ts \<rparr>, bs2)))"


section \<open>Concrete inputs\<close>

text \<open>
  A started adapter on a local socket with nothing pending, whose router answers every
  route with one response of status 200; a socket of the connection \<open>c1\<close>; the
  environment with the strict validator.
\<close>

definition example_router :: router where
  "example_router name d = ([Respond 200 JNull], Returned)"

definition example_adapter :: adapter where
  "example_adapter =
     \<lparr> router = Some example_router, ipc = True, server = True, httpServer = False,
       wsServer = False, pending = Map.empty, started = True, connection = ModeIpc ''ironfish.ipc'',
       inboundTraffic = \<lparr>meter_started = True, meter_count = 0\<rparr>,
       outboundTraffic = \<lparr>meter_started = True, meter_count = 0\<rparr>,
       emitted = [], closed = (\<lambda>r. False), next_ref = 0 \<rparr>"

definition example_socket :: IpcSocket where
  "example_socket = \<lparr> handle = 0, socket_id = Some ''c1'' \<rparr>"

definition example_env :: env where
  "example_env = \<lparr> tryValidate = IpcRequestSchema, new_stack = ''Error: Malformed request rejected'' \<rparr>"


text \<open>
  The same adapter with two Request Contexts pending on the connection \<open>c1\<close>; a
  router whose route streams one chunk and then fails with a structured error; a block
  with a header of four bytes and three transactions.
\<close>

definition example_pending :: adapter where
  "example_pending =
     example_adapter\<lparr>pending := [''c1'' \<mapsto>
         [\<lparr>request_ref = 0, request_data = JUndefined, request_route = ''chain/followChainStream'',
            request_socket = example_socket, request_mid = 1\<rparr>,
          \<lparr>request_ref = 1, request_data = JNull, request_route = ''chain/getBlock'',
            request_socket = example_socket, request_mid = 2\<rparr>]],
       next_ref := 2\<rparr>"

definition failing_router :: router where
  "failing_router name d = ([Stream (JNum 1)], Threw (ResponseError 404 ''not-found'' ''No block'' None))"

definition example_block :: Block where
  "example_block = \<lparr> block_header = [1, 2, 3, 4], block_transactions = [[7, 8, 9], [], [255]] \<rparr>"

section \<open>Serialization facts\<close>

lemma stringify_object_defined: "JSON_stringify (JObj ps) \<noteq> None"
  by simp



lemma stringify_IpcError: "JSON_stringify (IpcError_value e) \<noteq> None"
  by (simp add: IpcError_value_def)

section \<open>The HTTP listener's stream callback\<close>

text \<open>
  As the code stands no HTTP request reaches a callback: \<^verbatim>\<open>new Request\<close> throws
  before the router is called, and nothing is written to the response.
\<close>

lemma http_handler_throws:
  "fst (http_handler a request) \<noteq> None \<and> snd (http_handler a request) = []"
  by (simp add: http_handler_def new_Request_def split: option.splits sum.splits)

text \<open>
  Within one response only the first callback writes: once the head has been written,
  a callback throws and writes nothing.
\<close>

lemma http_callback_after_head:
  "head_written calls \<Longrightarrow> http_callback c calls = (Some ERR_HTTP_HEADERS_SENT, calls)"
  by (cases c) (simp_all add: http_callback_def http_respond_def http_stream_def writeHead_def)




section \<open>Idempotent start\<close>

text \<open>The first \<^verbatim>\<open>start()\<close> does change the adapter: it marks it started and starts both meters.\<close>

lemma start_first:
  "\<not> started a \<Longrightarrow>
   started (snd (start served a))
   \<and> meter_started (inboundTraffic (snd (start served a)))
   \<and> meter_started (outboundTraffic (snd (start served a)))
   \<and> ipc (snd (start served a))"
  by (simp add: start_def Meter_start_def Let_def split: IpcAdapterConnectionInfo.splits option.splits)

text \<open>
  C9: \<^verbatim>\<open>start()\<close> on an adapter that has been started returns at once, whatever
  the transport would answer, and leaves the adapter as it was: every field keeps its
  value, no meter is started again, no server is created.
\<close>

theorem start_when_started: "started a \<Longrightarrow> start served a = (None, a)"
  by (simp add: start_def)

theorem start_when_started_witness:
  "started example_adapter \<and> start (Some syntax_error) example_adapter = (None, example_adapter)"
  using start_when_started [of example_adapter "Some syntax_error"]
  by (simp add: example_adapter_def)

section \<open>Messages on a socket without a connection id\<close>

text \<open>
  C10: a message on a socket whose \<^verbatim>\<open>id\<close> is not set (absent or empty) is dropped:
  \<^verbatim>\<open>onMessage\<close> returns without an error and leaves the whole state as it was, so
  nothing is emitted, no meter moves and \<open>pending\<close> is unchanged, whatever the
  validator would say about the message.
\<close>

theorem onMessage_without_id: "\<not> truthy (socket_id socket) \<Longrightarrow> onMessage ev socket d a = (None, a)"
  by (simp add: onMessage_def truthy_def split: option.splits)

theorem onMessage_without_id_witness:
  "\<not> truthy (socket_id (example_socket\<lparr>socket_id := None\<rparr>))
   \<and> onMessage example_env (example_socket\<lparr>socket_id := None\<rparr>)
        (JObj [(''mid'', JNum 1), (''type'', JStr ''chain/getBlock'')]) example_adapter
       = (None, example_adapter)"
  using onMessage_without_id [of "example_socket\<lparr>socket_id := None\<rparr>" example_env
      "JObj [(''mid'', JNum 1), (''type'', JStr ''chain/getBlock'')]" example_adapter]
  by (simp add: truthy_def example_socket_def)

section \<open>The WebSocket listener's route guard\<close>

text \<open>
  C8: a WebSocket connection whose route name (the path without its leading slash) does
  not end in \<^verbatim>\<open>Stream\<close> is closed at once: closing the client socket is all the
  listener does, the router is not called and nothing is sent, whatever router is
  attached.
\<close>

theorem ws_route_guard:
  "\<not> endsWith (drop 1 (pathname u)) ''Stream'' \<Longrightarrow> ws_connection a (Some u) = (None, [WsClose])"
  by (simp add: ws_connection_def)

theorem ws_route_guard_witness:
  "\<not> endsWith (drop 1 (pathname \<lparr>pathname = ''/chain/getBlock'', search = ''?hash=ab'', searchParams = [(''hash'', ''ab'')]\<rparr>)) ''Stream''
   \<and> ws_connection example_adapter
        (Some \<lparr>pathname = ''/chain/getBlock'', search = ''?hash=ab'', searchParams = [(''hash'', ''ab'')]\<rparr>)
       = (None, [WsClose])"
  using ws_route_guard [of "\<lparr>pathname = ''/chain/getBlock'', search = ''?hash=ab'', searchParams = [(''hash'', ''ab'')]\<rparr>" example_adapter]
  by (simp add: endsWith_def)


section \<open>Outbound traffic accounting\<close>

text \<open>
  The two emitters account for the payload alone: when \<^verbatim>\<open>JSON.stringify(data)\<close>
  is a string, the message is emitted and the outbound meter grows by the number of
  bytes of that string.
\<close>

lemma emitResponse_accounts:
  "server a \<Longrightarrow> JSON_stringify d = Some s \<Longrightarrow>
   emitResponse socket m st d a =
     (None, a\<lparr>emitted := emitted a @ [EmitMessage socket \<lparr>response_id = m, response_status = st, response_data = d\<rparr>],
              outboundTraffic := Meter_add (length s) (outboundTraffic a)\<rparr>)"
  by (simp add: emitResponse_def Buffer_byteLength_def)

lemma emitStream_accounts:
  "server a \<Longrightarrow> JSON_stringify d = Some s \<Longrightarrow>
   emitStream socket m d a =
     (None, a\<lparr>emitted := emitted a @ [EmitStream socket \<lparr>stream_id = m, stream_data = d\<rparr>],
              outboundTraffic := Meter_add (length s) (outboundTraffic a)\<rparr>)"
  by (simp add: emitStream_def Buffer_byteLength_def)

text \<open>
  C6: every respond and every stream on the local-socket/TCP channel adds the byte length
  of the JSON serialization of \<^verbatim>\<open>data\<close> to the outbound meter, also when
  \<^verbatim>\<open>data\<close> is absent. The code at \<^verbatim>\<open>data = undefined\<close>:
  \<^verbatim>\<open>JSON.stringify\<close> returns \<^verbatim>\<open>undefined\<close>, \<^verbatim>\<open>Buffer.from\<close> throws a
  \<^verbatim>\<open>TypeError\<close> after the message has been emitted, and the meter is not touched.
\<close>

theorem emit_undefined_throws:
  "emitResponse example_socket 1 200 JUndefined example_adapter =
     (Some invalid_arg_type,
      example_adapter\<lparr>emitted := [EmitMessage example_socket \<lparr>response_id = 1, response_status = 200, response_data = JUndefined\<rparr>]\<rparr>)
   \<and> emitStream example_socket 1 JUndefined example_adapter =
     (Some invalid_arg_type,
      example_adapter\<lparr>emitted := [EmitStream example_socket \<lparr>stream_id = 1, stream_data = JUndefined\<rparr>]\<rparr>)
   \<and> outboundTraffic (snd (emitResponse example_socket 1 200 JUndefined example_adapter)) = outboundTraffic example_adapter
   \<and> outboundTraffic (snd (emitStream example_socket 1 JUndefined example_adapter)) = outboundTraffic example_adapter"
  by (simp add: emitResponse_def emitStream_def Buffer_byteLength_def example_adapter_def)

section \<open>Malformed requests\<close>

lemma numeric_id_iff:
  "numeric_id d = Some i \<longleftrightarrow> (\<exists>ps. d = JObj ps \<and> map_of ps ''id'' = Some (JNum i))"
  by (auto simp: numeric_id_def split: jsval.splits option.splits)

lemma handleMalformedRequest_emits:
  assumes "server a"
  shows "fst (handleMalformedRequest ev socket d a) = None
    \<and> emitted (snd (handleMalformedRequest ev socket d a)) =
        emitted a @ [case numeric_id d of
                       Some i \<Rightarrow> EmitMessage socket \<lparr>response_id = i, response_status = 500,
                                     response_data = IpcError_value (malformed_error ev)\<rparr>
                     | None \<Rightarrow> EmitMalformedRequest socket (malformed_error ev)]"
proof -
  obtain s where s: "JSON_stringify (IpcError_value (malformed_error ev)) = Some s"
    using stringify_IpcError [of "malformed_error ev"] by blast
  show ?thesis
  proof (cases "numeric_id d")
    case None
    with assms s show ?thesis
      by (simp add: handleMalformedRequest_def Buffer_byteLength_def)
  next
    case (Some i)
    with assms s show ?thesis
      by (simp add: handleMalformedRequest_def emitResponse_def Buffer_byteLength_def)
  qed
qed

text \<open>
  C2, as the spec states it: a message that fails validation and carries a numeric
  \<^verbatim>\<open>id\<close> or \<^verbatim>\<open>mid\<close> is answered with a targeted error Response. The code
  looks at \<^verbatim>\<open>id\<close> only: the message \<^verbatim>\<open>{"mid": 7}\<close> fails validation (it
  has no \<^verbatim>\<open>type\<close>), carries a numeric \<^verbatim>\<open>mid\<close>, and is answered with the
  connection-scoped \<^verbatim>\<open>malformedRequest\<close> event, not with a Response.
\<close>

theorem mid_is_not_targeted:
  "tryValidate example_env (JObj [(''mid'', JNum 7)]) = None
   \<and> emitted (snd (onMessage example_env example_socket (JObj [(''mid'', JNum 7)]) example_adapter))
       = [EmitMalformedRequest example_socket
            \<lparr>error_code = ''ERROR'', error_message = ''Malformed request rejected'',
               error_stack = Some ''Error: Malformed request rejected''\<rparr>]"
  by (simp add: example_env_def IpcRequestSchema_def onMessage_def example_socket_def
      handleMalformedRequest_def example_adapter_def numeric_id_def malformed_error_def
      renderError_def ERROR_CODES_ERROR_def Buffer_byteLength_def IpcError_value_def)

text \<open>
  C2, amended: for every message on a socket with a connection id that fails validation,
  with the server up, the adapter emits exactly one thing and throws nothing: the error
  Response with status 500 and the id of the message when the message is a non-null
  object whose \<^verbatim>\<open>id\<close> property is a number, and the connection-scoped
  \<^verbatim>\<open>malformedRequest\<close> event, with no Response, otherwise. The payload is the
  rendered error \<^verbatim>\<open>Malformed request rejected\<close> in both cases.
\<close>

theorem malformed_request_answer:
  assumes "truthy (socket_id socket)" and "tryValidate ev d = None" and "server a"
  shows "onMessage ev socket d a = handleMalformedRequest ev socket d a
    \<and> fst (onMessage ev socket d a) = None
    \<and> emitted (snd (onMessage ev socket d a)) =
        emitted a @ [case numeric_id d of
                       Some i \<Rightarrow> EmitMessage socket \<lparr>response_id = i, response_status = 500,
                                     response_data = IpcError_value (malformed_error ev)\<rparr>
                     | None \<Rightarrow> EmitMalformedRequest socket (malformed_error ev)]
    \<and> (numeric_id d \<noteq> None \<longleftrightarrow> (\<exists>ps i. d = JObj ps \<and> map_of ps ''id'' = Some (JNum i)))"
proof -
  from assms(1,2) have "onMessage ev socket d a = handleMalformedRequest ev socket d a"
    by (auto simp: onMessage_def truthy_def split: option.splits)
  moreover have "numeric_id d \<noteq> None \<longleftrightarrow> (\<exists>ps i. d = JObj ps \<and> map_of ps ''id'' = Some (JNum i))"
    using numeric_id_iff [of d] by auto
  ultimately show ?thesis
    using handleMalformedRequest_emits [OF assms(3), of ev socket d] by simp
qed

theorem malformed_request_answer_witness:
  "truthy (socket_id example_socket) \<and> tryValidate example_env (JObj [(''id'', JNum 7)]) = None
   \<and> server example_adapter
   \<and> emitted (snd (onMessage example_env example_socket (JObj [(''id'', JNum 7)]) example_adapter))
       = [EmitMessage example_socket
            \<lparr>response_id = 7, response_status = 500,
               response_data = JObj [(''code'', JStr ''ERROR''), (''message'', JStr ''Malformed request rejected''),
                                     (''stack'', JStr ''Error: Malformed request rejected'')]\<rparr>]"
proof -
  have h1: "truthy (socket_id example_socket)" by (simp add: truthy_def example_socket_def)
  have h2: "tryValidate example_env (JObj [(''id'', JNum 7)]) = None"
    by (simp add: example_env_def IpcRequestSchema_def)
  have h3: "server example_adapter" by (simp add: example_adapter_def)
  have e: "emitted example_adapter = []" by (simp add: example_adapter_def)
  have n: "numeric_id (JObj [(''id'', JNum 7)]) = Some 7" by (simp add: numeric_id_def)
  have m: "IpcError_value (malformed_error example_env) =
      JObj [(''code'', JStr ''ERROR''), (''message'', JStr ''Malformed request rejected''),
            (''stack'', JStr ''Error: Malformed request rejected'')]"
    by (simp add: malformed_error_def renderError_def ERROR_CODES_ERROR_def IpcError_value_def
        example_env_def)
  from malformed_request_answer [OF h1 h2 h3]
  have "emitted (snd (onMessage example_env example_socket (JObj [(''id'', JNum 7)]) example_adapter)) =
        emitted example_adapter @ [case numeric_id (JObj [(''id'', JNum 7)]) of
                       Some i \<Rightarrow> EmitMessage example_socket \<lparr>response_id = i, response_status = 500,
                                     response_data = IpcError_value (malformed_error example_env)\<rparr>
                     | None \<Rightarrow> EmitMalformedRequest example_socket (malformed_error example_env)]"
    by blast
  then show ?thesis using h1 h2 h3 by (simp add: e n m)
qed

section \<open>The Connection Registry\<close>

lemma emitResponse_pending: "pending (snd (emitResponse socket m st d a)) = pending a"
  by (simp add: emitResponse_def Let_def split: sum.splits)

lemma emitStream_pending: "pending (snd (emitStream socket m d a)) = pending a"
  by (simp add: emitStream_def Let_def split: sum.splits)

lemma run_callback_pending: "pending (snd (run_callback socket m c a)) = pending a"
  by (cases c) (simp_all add: run_callback_def emitResponse_pending emitStream_pending)

lemma run_callbacks_pending: "pending (snd (run_callbacks socket m cs a)) = pending a"
proof (induction cs arbitrary: a)
  case Nil
  show ?case by simp
next
  case (Cons c cs)
  obtain e a' where r: "run_callback socket m c a = (e, a')" by (cases "run_callback socket m c a")
  then have "pending a' = pending a" using run_callback_pending [of socket m c a] by simp
  with r Cons show ?case by (cases e) simp_all
qed

lemma route_pending: "pending (snd (route r socket msg a)) = pending a"
proof -
  obtain cs out where s: "r (msg_type msg) (msg_data msg) = (cs, out)"
    by (cases "r (msg_type msg) (msg_data msg)")
  obtain e a' where c: "run_callbacks socket (mid msg) cs a = (e, a')"
    by (cases "run_callbacks socket (mid msg) cs a")
  then have "pending a' = pending a" using run_callbacks_pending [of socket "mid msg" cs a] by simp
  with s c show ?thesis by (cases e; cases out) (simp_all add: route_def)
qed

lemma catch_route_pending: "pending (snd (catch_route socket m res)) = pending (snd res)"
proof (cases res)
  case (Pair e a)
  show ?thesis
  proof (cases e)
    case None
    with Pair show ?thesis by (simp add: catch_route_def)
  next
    case (Some error)
    with Pair show ?thesis
      by (cases error) (simp_all add: catch_route_def emitResponse_pending)
  qed
qed

lemma handleMalformedRequest_pending: "pending (snd (handleMalformedRequest ev socket d a)) = pending a"
  by (simp add: handleMalformedRequest_def Let_def emitResponse_pending split: option.splits sum.splits)

text \<open>
  Only a socket with a non-empty id registers anything: the empty string is never a key
  of \<open>pending\<close>.
\<close>

lemma onMessage_pending_keys:
  assumes "pending a [] = None"
  shows "pending (snd (onMessage ev socket d a)) [] = None"
proof (cases "socket_id socket")
  case None
  with assms show ?thesis by (simp add: onMessage_def)
next
  case (Some sid)
  show ?thesis
  proof (cases "sid = []")
    case True
    with Some assms show ?thesis by (simp add: onMessage_def)
  next
    case False
    have "pending (snd (catch_route socket m (route r socket msg (register sid socket msg a1)))) []
        = pending a1 []" for m r msg a1
      using False by (simp add: catch_route_pending route_pending register_def)
    with Some False assms show ?thesis
      by (simp add: onMessage_def handleMalformedRequest_pending Let_def
          split: option.splits sum.splits)
  qed
qed



lemma fold_close_pending: "pending (fold RpcRequest_close rs a) = pending a"
  by (induction rs arbitrary: a) (simp_all add: RpcRequest_close_def)




lemma fold_close_emitted: "emitted (fold RpcRequest_close rs a) = emitted a"
  by (induction rs arbitrary: a) (simp_all add: RpcRequest_close_def)

lemma fold_close_closed:
  "closed (fold RpcRequest_close rs a) k \<longleftrightarrow> closed a k \<or> k \<in> request_ref ` set rs"
  by (induction rs arbitrary: a) (auto simp: RpcRequest_close_def)

text \<open>
  C4: when a connection with the id \<open>sid\<close> and the pending contexts \<open>rs\<close>
  disconnects, \<^verbatim>\<open>close()\<close> is called on each context of \<open>rs\<close>, in order, and the
  entry of \<open>sid\<close> is deleted from \<open>pending\<close>: afterwards nothing is registered under
  \<open>sid\<close>, every context of \<open>rs\<close> is closed, and nothing has been emitted.
\<close>

theorem disconnect_closes_all:
  assumes "socket_id socket = Some sid" and "sid \<noteq> []" and "pending a sid = Some rs"
  shows "socket_disconnected socket a = (fold RpcRequest_close rs a)\<lparr>pending := (pending a)(sid := None)\<rparr>
    \<and> pending (socket_disconnected socket a) sid = None
    \<and> (\<forall>r \<in> set rs. closed (socket_disconnected socket a) (request_ref r))
    \<and> emitted (socket_disconnected socket a) = emitted a"
  using assms
  by (simp add: socket_disconnected_def truthy_def onDisconnect_def Let_def fold_close_pending
      fold_close_emitted fold_close_closed)

theorem disconnect_closes_all_witness:
  "socket_id example_socket = Some ''c1'' \<and> ''c1'' \<noteq> []
   \<and> (\<exists>r0 r1. pending example_pending ''c1'' = Some [r0, r1] \<and> request_ref r0 = 0 \<and> request_ref r1 = 1)
   \<and> pending (socket_disconnected example_socket example_pending) ''c1'' = None
   \<and> closed (socket_disconnected example_socket example_pending) 0
   \<and> closed (socket_disconnected example_socket example_pending) 1
   \<and> \<not> closed example_pending 0 \<and> \<not> closed example_pending 1"
proof -
  have h1: "socket_id example_socket = Some ''c1''" by (simp add: example_socket_def)
  have h2: "''c1'' \<noteq> []" by simp
  have h3: "pending example_pending ''c1'' =
      Some [\<lparr>request_ref = 0, request_data = JUndefined, request_route = ''chain/followChainStream'',
              request_socket = example_socket, request_mid = 1\<rparr>,
            \<lparr>request_ref = 1, request_data = JNull, request_route = ''chain/getBlock'',
              request_socket = example_socket, request_mid = 2\<rparr>]"
    by (simp add: example_pending_def)
  have c: "\<not> closed example_pending 0 \<and> \<not> closed example_pending 1"
    by (simp add: example_pending_def example_adapter_def)
  from disconnect_closes_all [OF h1 h2 h3]
  have p: "pending (socket_disconnected example_socket example_pending) ''c1'' = None"
    and b: "\<forall>r \<in> set [\<lparr>request_ref = 0, request_data = JUndefined, request_route = ''chain/followChainStream'',
              request_socket = example_socket, request_mid = 1\<rparr>,
            \<lparr>request_ref = 1, request_data = JNull, request_route = ''chain/getBlock'',
              request_socket = example_socket, request_mid = 2\<rparr>].
           closed (socket_disconnected example_socket example_pending) (request_ref r)"
    by blast+
  from b have "closed (socket_disconnected example_socket example_pending) 0
      \<and> closed (socket_disconnected example_socket example_pending) 1"
    by simp
  with p h1 h3 c show ?thesis by simp
qed

section \<open>Failures of the route invocation\<close>

lemma emitResponse_server: "server (snd (emitResponse socket m st d a)) = server a"
  by (simp add: emitResponse_def Let_def split: sum.splits)

lemma emitStream_server: "server (snd (emitStream socket m d a)) = server a"
  by (simp add: emitStream_def Let_def split: sum.splits)

lemma run_callback_server: "server (snd (run_callback socket m c a)) = server a"
  by (cases c) (simp_all add: run_callback_def emitResponse_server emitStream_server)

lemma run_callbacks_server: "server (snd (run_callbacks socket m cs a)) = server a"
proof (induction cs arbitrary: a)
  case Nil
  show ?case by simp
next
  case (Cons c cs)
  obtain e a' where r: "run_callback socket m c a = (e, a')" by (cases "run_callback socket m c a")
  then have "server a' = server a" using run_callback_server [of socket m c a] by simp
  with r Cons show ?case by (cases e) simp_all
qed

lemma renderError_code:
  "error_code (renderError (ResponseError st c m k)) = c"
  "error_code (renderError (OtherError n m k)) = ''ERROR''"
  by (simp_all add: renderError_def ERROR_CODES_ERROR_def)

text \<open>
  C5: a message on the local-socket/TCP channel has been validated and registered, and
  the route invocation fails with \<open>error\<close> after its callbacks have run. If
  \<open>error\<close> is a \<^verbatim>\<open>ResponseError\<close>, \<^verbatim>\<open>onMessage\<close> throws nothing and emits
  one more Response: its id is the \<^verbatim>\<open>mid\<close> of the message, its status the status
  of the error, its data the rendered error with the error's own code. Any other error
  is thrown again, and nothing more is emitted. The rendered code of an error that is
  not a \<^verbatim>\<open>ResponseError\<close> is \<^verbatim>\<open>ERROR\<close>.
\<close>

theorem structured_error_answered:
  assumes "socket_id socket = Some sid" and "sid \<noteq> []"
    and "tryValidate ev d = Some msg" and "JSON_stringify d = Some s"
    and "router a = Some r" and "server a"
    and "r (msg_type msg) (msg_data msg) = (cs, Threw error)"
    and "run_callbacks socket (mid msg) cs
           (register sid socket msg (a\<lparr>inboundTraffic := Meter_add (length s) (inboundTraffic a)\<rparr>)) = (None, a')"
  shows "(case error of
            ResponseError st c m k \<Rightarrow>
              fst (onMessage ev socket d a) = None
              \<and> emitted (snd (onMessage ev socket d a)) =
                  emitted a' @ [EmitMessage socket
                     \<lparr>response_id = mid msg, response_status = st,
                        response_data = JObj [(''code'', JStr c), (''message'', JStr m),
                                              (''stack'', case k of None \<Rightarrow> JUndefined | Some t \<Rightarrow> JStr t)]\<rparr>]
          | OtherError n m k \<Rightarrow> onMessage ev socket d a = (Some error, a'))
    \<and> error_code (renderError (OtherError n' m' k')) = ''ERROR''"
proof -
  let ?a1 = "a\<lparr>inboundTraffic := Meter_add (length s) (inboundTraffic a)\<rparr>"
  have srv: "server a'"
    using run_callbacks_server [of socket "mid msg" cs "register sid socket msg ?a1"] assms(6,8)
    by (simp add: register_def)
  have rt: "route r socket msg (register sid socket msg ?a1) = (Some error, a')"
    using assms(7,8) by (simp add: route_def)
  have om: "onMessage ev socket d a = catch_route socket (mid msg) (Some error, a')"
    using assms(1-6) rt by (simp add: onMessage_def Buffer_byteLength_def)
  show ?thesis
  proof (cases error)
    case (ResponseError st c m k)
    have "\<exists>t. JSON_stringify (IpcError_value (renderError error)) = Some t"
      by (simp add: IpcError_value_def)
    then obtain t where t: "JSON_stringify (IpcError_value (renderError error)) = Some t" ..
    have v: "IpcError_value (renderError error) =
        JObj [(''code'', JStr c), (''message'', JStr m),
              (''stack'', case k of None \<Rightarrow> JUndefined | Some t \<Rightarrow> JStr t)]"
      using ResponseError by (simp add: IpcError_value_def renderError_def)
    from om ResponseError srv t v show ?thesis
      by (simp add: catch_route_def emitResponse_def Buffer_byteLength_def renderError_code)
  next
    case (OtherError n m k)
    with om show ?thesis by (simp add: catch_route_def renderError_code)
  qed
qed

theorem structured_error_answered_witness:
  "socket_id example_socket = Some ''c1'' \<and> ''c1'' \<noteq> []
   \<and> tryValidate example_env (JObj [(''mid'', JNum 3), (''type'', JStr ''chain/getBlock'')])
       = Some \<lparr>mid = 3, msg_type = ''chain/getBlock'', msg_data = JUndefined\<rparr>
   \<and> router (attach failing_router example_adapter) = Some failing_router
   \<and> server (attach failing_router example_adapter)
   \<and> fst (onMessage example_env example_socket (JObj [(''mid'', JNum 3), (''type'', JStr ''chain/getBlock'')])
            (attach failing_router example_adapter)) = None
   \<and> emitted (snd (onMessage example_env example_socket (JObj [(''mid'', JNum 3), (''type'', JStr ''chain/getBlock'')])
            (attach failing_router example_adapter)))
       = [EmitStream example_socket \<lparr>stream_id = 3, stream_data = JNum 1\<rparr>,
          EmitMessage example_socket
            \<lparr>response_id = 3, response_status = 404,
               response_data = JObj [(''code'', JStr ''not-found''), (''message'', JStr ''No block''),
                                     (''stack'', JUndefined)]\<rparr>]"
proof -
  let ?d = "JObj [(''mid'', JNum 3), (''type'', JStr ''chain/getBlock'')]"
  let ?msg = "\<lparr>mid = 3, msg_type = ''chain/getBlock'', msg_data = JUndefined\<rparr>"
  let ?a = "attach failing_router example_adapter"
  have h1: "socket_id example_socket = Some ''c1''" by (simp add: example_socket_def)
  have h2: "''c1'' \<noteq> []" by simp
  have h3: "tryValidate example_env ?d = Some ?msg" by (simp add: example_env_def IpcRequestSchema_def)
  obtain s where h4: "JSON_stringify ?d = Some s" by simp
  let ?a1 = "register ''c1'' example_socket ?msg (?a\<lparr>inboundTraffic := Meter_add (length s) (inboundTraffic ?a)\<rparr>)"
  let ?run = "run_callbacks example_socket (mid ?msg) [Stream (JNum 1)] ?a1"
  have h5: "router ?a = Some failing_router" by (simp add: attach_def)
  have h6: "server ?a" by (simp add: attach_def example_adapter_def)
  have h7: "failing_router (msg_type ?msg) (msg_data ?msg) =
      ([Stream (JNum 1)], Threw (ResponseError 404 ''not-found'' ''No block'' None))"
    by (simp add: failing_router_def)
  have f: "fst ?run = None"
    by (simp add: run_callback_def emitStream_def Buffer_byteLength_def register_def attach_def
        example_adapter_def)
  have em: "emitted (snd ?run) = [EmitStream example_socket \<lparr>stream_id = 3, stream_data = JNum 1\<rparr>]"
    by (simp add: run_callback_def emitStream_def Buffer_byteLength_def register_def attach_def
        example_adapter_def)
  have h8: "?run = (None, snd ?run)"
    using f by (metis prod.collapse)
  from structured_error_answered [OF h1 h2 h3 h4 h5 h6 h7 h8]
  have "fst (onMessage example_env example_socket ?d ?a) = None
      \<and> emitted (snd (onMessage example_env example_socket ?d ?a)) =
          emitted (snd ?run) @ [EmitMessage example_socket
             \<lparr>response_id = mid ?msg, response_status = 404,
                response_data = JObj [(''code'', JStr ''not-found''), (''message'', JStr ''No block''),
                                      (''stack'', JUndefined)]\<rparr>]"
    by (simp only: js_error.case option.case)
  then have "fst (onMessage example_env example_socket ?d ?a) = None
      \<and> emitted (snd (onMessage example_env example_socket ?d ?a)) =
          [EmitStream example_socket \<lparr>stream_id = 3, stream_data = JNum 1\<rparr>] @ [EmitMessage example_socket
             \<lparr>response_id = mid ?msg, response_status = 404,
                response_data = JObj [(''code'', JStr ''not-found''), (''message'', JStr ''No block''),
                                      (''stack'', JUndefined)]\<rparr>]"
    unfolding em .
  then show ?thesis using h1 h3 h5 h6 by simp
qed

section \<open>Round trip of the block chunk codec\<close>

lemma length_le_bytes: "length (le_bytes k n) = k"
  by (induction k arbitrary: n) simp_all

lemma unat_byte_of_nat: "unat (of_nat n :: byte) = n mod 256"
  by (simp add: unat_of_nat)

lemma le_value_le_bytes: "le_value (le_bytes k n @ rest) = n mod 256 ^ k + 256 ^ k * le_value rest"
proof (induction k arbitrary: n)
  case 0
  show ?case by simp
next
  case (Suc k)
  have "n mod 256 + 256 * (n div 256 mod 256 ^ k) = n mod (256 * 256 ^ k)"
    by (simp add: mod_mult2_eq)
  with Suc show ?case by (simp add: unat_byte_of_nat algebra_simps)
qed

lemma le_value_le_bytes_exact: "n < 256 ^ k \<Longrightarrow> le_value (le_bytes k n) = n"
  using le_value_le_bytes [of k n "[]"] by simp

lemma readFixed_le_bytes:
  assumes "n < 256 ^ k" and "least \<le> n"
  shows "readFixed k least (le_bytes k n @ rest) = Some (n, rest)"
  using assms by (simp add: readFixed_def length_le_bytes le_value_le_bytes_exact)

lemma small_byte_not_marker:
  assumes "n < 0xfd"
  shows "(of_nat n :: byte) \<noteq> 0xff \<and> (of_nat n :: byte) \<noteq> 0xfe \<and> (of_nat n :: byte) \<noteq> 0xfd
    \<and> unat (of_nat n :: byte) = n"
proof -
  have u: "unat (of_nat n :: byte) = n" using assms by (simp add: unat_byte_of_nat)
  have "unat (of_nat n :: byte) \<noteq> unat (0xff :: byte)" using assms u by simp
  moreover have "unat (of_nat n :: byte) \<noteq> unat (0xfe :: byte)" using assms u by simp
  moreover have "unat (of_nat n :: byte) \<noteq> unat (0xfd :: byte)" using assms u by simp
  ultimately show ?thesis using u by metis
qed

lemma readVarint_writeVarint:
  assumes "n < 2 ^ 64"
  shows "readVarint (writeVarint n @ rest) = Some (n, rest)"
proof -
  consider "n < 0xfd" | "0xfd \<le> n" "n \<le> 0xffff" | "0xffff < n" "n \<le> 0xffffffff" | "0xffffffff < n"
    by linarith
  then show ?thesis
  proof cases
    case 1
    then show ?thesis using small_byte_not_marker [OF 1]
      by (simp add: readVarint_def writeVarint_def)
  next
    case 2
    then have "readFixed 2 0xfd (le_bytes 2 n @ rest) = Some (n, rest)"
      by (intro readFixed_le_bytes) simp_all
    with 2 show ?thesis by (simp add: readVarint_def writeVarint_def)
  next
    case 3
    then have "readFixed 4 0x10000 (le_bytes 4 n @ rest) = Some (n, rest)"
      by (intro readFixed_le_bytes) simp_all
    with 3 show ?thesis by (simp add: readVarint_def writeVarint_def)
  next
    case 4
    with assms have "readFixed 8 0x100000000 (le_bytes 8 n @ rest) = Some (n, rest)"
      by (intro readFixed_le_bytes) simp_all
    with 4 show ?thesis by (simp add: readVarint_def writeVarint_def)
  qed
qed

lemma length_writeVarint: "length (writeVarint n) = sizeVarint n"
  by (simp add: writeVarint_def sizeVarint_def length_le_bytes)

lemma readTransactions_written:
  assumes "\<forall>t \<in> set ts. length t < 2 ^ 64"
  shows "readTransactions (length ts) (concat (map writeVarBytes ts) @ rest) = Some (ts, rest)"
  using assms
proof (induction ts)
  case Nil
  show ?case by simp
next
  case (Cons t ts)
  let ?tail = "concat (map writeVarBytes ts) @ rest"
  have e: "concat (map writeVarBytes (t # ts)) @ rest = writeVarint (length t) @ t @ ?tail"
    by (simp add: writeVarBytes_def)
  have v: "readVarint (writeVarint (length t) @ t @ ?tail) = Some (length t, t @ ?tail)"
    using Cons.prems by (simp add: readVarint_writeVarint)
  have ih: "readTransactions (length ts) ?tail = Some (ts, rest)"
    using Cons by simp
  show ?case unfolding e using v ih by simp
qed

lemma length_writeBlock: "length (writeBlock b) = getBlockSize b"
proof -
  have "length (concat (map writeVarBytes ts)) = sum_list (map (\<lambda>t. sizeVarint (length t) + length t) ts)" for ts
    by (induction ts) (simp_all add: writeVarBytes_def length_writeVarint)
  then show ?thesis by (simp add: writeBlock_def getBlockSize_def length_writeVarint)
qed

text \<open>
  C7: for every block with a header of \<open>h\<close> bytes whose transaction count and
  transaction lengths fit the eight bytes of the varint, reading what
  \<^verbatim>\<open>writeBlock\<close> wrote gives back the block, header bytes and every transaction's
  bytes; \<^verbatim>\<open>writeBlock\<close> writes exactly \<^verbatim>\<open>getBlockSize(block)\<close> bytes, and
  \<^verbatim>\<open>readBlock\<close> consumes exactly those and leaves what follows them.
\<close>

theorem block_round_trip:
  assumes "length (block_header b) = h"
    and "length (block_transactions b) < 2 ^ 64"
    and "\<forall>t \<in> set (block_transactions b). length t < 2 ^ 64"
  shows "readBlock h (writeBlock b @ rest) = Some (b, rest)
    \<and> length (writeBlock b) = getBlockSize b
    \<and> drop (getBlockSize b) (writeBlock b @ rest) = rest"
proof -
  let ?ts = "block_transactions b"
  have v: "readVarint (writeVarint (length ?ts) @ concat (map writeVarBytes ?ts) @ rest)
      = Some (length ?ts, concat (map writeVarBytes ?ts) @ rest)"
    using assms(2) by (rule readVarint_writeVarint)
  have t: "readTransactions (length ?ts) (concat (map writeVarBytes ?ts) @ rest) = Some (?ts, rest)"
    using assms(3) by (rule readTransactions_written)
  have "readBlock h (writeBlock b @ rest) = Some (b, rest)"
    using assms(1) v t by (simp add: readBlock_def writeBlock_def)
  moreover have "drop (getBlockSize b) (writeBlock b @ rest) = rest"
    using length_writeBlock [of b] by simp
  ultimately show ?thesis by (simp add: length_writeBlock)
qed

theorem block_round_trip_witness:
  "length (block_header example_block) = 4
   \<and> length (block_transactions example_block) < 2 ^ 64
   \<and> list_all (\<lambda>t. length t < 2 ^ 64) (block_transactions example_block)
   \<and> writeBlock example_block = [1, 2, 3, 4, 3, 3, 7, 8, 9, 0, 1, 255]
   \<and> readBlock 4 ([1, 2, 3, 4, 3, 3, 7, 8, 9, 0, 1, 255] @ [42]) = Some (example_block, [42])
   \<and> getBlockSize example_block = 12"
proof -
  have h1: "length (block_header example_block) = 4" by (simp add: example_block_def)
  have h2: "length (block_transactions example_block) < 2 ^ 64" by (simp add: example_block_def)
  have h3: "\<forall>t \<in> set (block_transactions example_block). length t < 2 ^ 64"
    by (simp add: example_block_def)
  have w: "writeBlock example_block = [1, 2, 3, 4, 3, 3, 7, 8, 9, 0, 1, 255]"
    by (simp add: example_block_def writeBlock_def writeVarBytes_def writeVarint_def)
  from block_round_trip [OF h1 h2 h3, of "[42]"] h1 h2 h3 w show ?thesis
    by (simp add: list_all_iff)
qed

end
